theory Spec2Isabelle
  imports Main "HOL-Library.Word"
begin

section \<open>JavaScript values and strings\<close>

text \<open>
  A JavaScript string is a sequence of 16-bit UTF-16 code units; \<open>length\<close>,
  \<open>charCodeAt\<close>, \<open>substr\<close>, \<open>slice\<close> and a regular expression without the \<open>u\<close>
  flag all work on code units.  String literals of the source are written
  \<open>js ''...''\<close>.
\<close>

type_synonym code_unit = "16 word"
type_synonym jsstring = "code_unit list"

definition js :: "string \<Rightarrow> jsstring" where
  "js s = map (\<lambda>c. of_nat (of_char c)) s"

text \<open>
  The values a caller can pass where the source says \<open>Mixed\<close>.  Of a number
  \<open>api.js\<close> only ever tests whether it is falsy, and it never reads a field of
  a plain object; an array is the list of its elements (a hole is skipped by
  \<open>some\<close> and \<open>filter\<close>, as an \<open>undefined\<close> element is by \<open>nonEmptyStr\<close>).
\<close>

datatype jsval =
    JUndefined
  | JNull
  | JBool bool
  | JNum int
  | JStr jsstring
  | JArr "jsval list"
  | JObj "(jsstring \<times> jsval) list"

text \<open>\<open>typeof v === 'string'\<close> and \<open>Array.isArray(v)\<close>.\<close>

fun isString :: "jsval \<Rightarrow> bool" where
  "isString (JStr s) = True"
| "isString v = False"

fun isArray :: "jsval \<Rightarrow> bool" where
  "isArray (JArr xs) = True"
| "isArray v = False"

text \<open>
  The class \<open>\s\<close> of ECMAScript regular expressions: WhiteSpace (TAB, VT, FF, SP,
  NBSP, ZWNBSP and the Unicode category Zs) and LineTerminator (LF, CR, LS, PS).
  \<open>\S\<close> is its complement on code units.
\<close>

definition isWhiteSpace :: "code_unit \<Rightarrow> bool" where
  "isWhiteSpace c \<longleftrightarrow>
     c = 0x0009 \<or> c = 0x000A \<or> c = 0x000B \<or> c = 0x000C \<or> c = 0x000D \<or>
     c = 0x0020 \<or> c = 0x00A0 \<or> c = 0x1680 \<or>
     (0x2000 \<le> c \<and> c \<le> 0x200A) \<or>
     c = 0x2028 \<or> c = 0x2029 \<or> c = 0x202F \<or> c = 0x205F \<or>
     c = 0x3000 \<or> c = 0xFEFF"

text \<open>\<open>/\S/.test(s)\<close>: some code unit of \<open>s\<close> is not white space.\<close>

definition test_nonspace :: "jsstring \<Rightarrow> bool" where
  "test_nonspace s = list_ex (\<lambda>c. \<not> isWhiteSpace c) s"

section \<open>The pattern normalizer\<close>

text \<open>
  \<^verbatim>\<open>const nonEmptyStr = v => typeof v === 'string' && /\S/.test(v);\<close>
\<close>

fun nonEmptyStr :: "jsval \<Rightarrow> bool" where
  "nonEmptyStr (JStr s) = test_nonspace s"
| "nonEmptyStr v = False"

text \<open>
  \<^verbatim>\<open>
  const normalizePatterns = patterns => {
    if (nonEmptyStr(patterns)) { return [patterns]; }
    if (!Array.isArray(patterns) || !patterns.some(nonEmptyStr)) {
      return ['lang/*.json'];
    }
    return patterns.filter(nonEmptyStr);
  };
  \<close>
  \<open>some\<close> is \<open>list_ex\<close> and \<open>filter\<close> is \<open>filter\<close>; the second disjunct is only
  evaluated on an array.
\<close>

definition default_patterns :: "jsval list" where
  "default_patterns = [JStr (js ''lang/*.json'')]"

definition normalizePatterns :: "jsval \<Rightarrow> jsval list" where
  "normalizePatterns patterns =
     (if nonEmptyStr patterns then [patterns]
      else case patterns of
        JArr xs \<Rightarrow>
          (if \<not> list_ex nonEmptyStr xs then default_patterns
           else filter nonEmptyStr xs)
      | _ \<Rightarrow> default_patterns)"

section \<open>String primitives\<close>

text \<open>
  \<open>s.charCodeAt(i)\<close> is a code unit for \<open>0 \<le> i < s.length\<close> and \<open>NaN\<close> otherwise;
  \<open>NaN\<close> is \<open>None\<close>, which equals no code unit.
\<close>

definition charCodeAt :: "jsstring \<Rightarrow> nat \<Rightarrow> code_unit option" where
  "charCodeAt s i = (if i < length s then Some (s ! i) else None)"

text \<open>
  \<open>s.slice(from, to)\<close> with \<open>0 \<le> from\<close> and \<open>0 \<le> to\<close> (all the \<open>path\<close> module
  needs): the code units from \<open>from\<close> up to \<open>to\<close>, clamped to the string, empty
  when \<open>to \<le> from\<close>.
\<close>

definition slice :: "jsstring \<Rightarrow> nat \<Rightarrow> nat \<Rightarrow> jsstring" where
  "slice s from to = take (to - from) (drop from s)"

text \<open>
  \<open>s.substr(start, length)\<close> on integer arguments (ECMAScript B.2.2.1): a negative
  \<open>start\<close> counts from the end, \<open>length\<close> is clamped to \<open>0 .. s.length\<close>.
\<close>

definition substr :: "jsstring \<Rightarrow> int \<Rightarrow> int \<Rightarrow> jsstring" where
  "substr s start len =
     (let size = int (length s);
          intStart = (if start < 0 then max (size + start) 0 else min start size);
          intLength = min (max len 0) size;
          intEnd = min (intStart + intLength) size
      in slice s (nat intStart) (nat intEnd))"

text \<open>\<open>s.lastIndexOf(c)\<close> for a single code unit \<open>c\<close>; \<open>-1\<close> when absent.\<close>

fun lastIndexOf :: "jsstring \<Rightarrow> code_unit \<Rightarrow> int" where
  "lastIndexOf [] c = -1"
| "lastIndexOf (x # xs) c =
     (let r = lastIndexOf xs c
      in if r \<noteq> -1 then r + 1 else if x = c then 0 else -1)"

section \<open>The \<open>path\<close> module of Node.js (POSIX flavour)\<close>

text \<open>
  \<open>api.js\<close> imports \<open>path\<close> and calls \<open>dirname\<close>, \<open>basename\<close>, \<open>extname\<close> and
  \<open>join\<close>.  These are the \<open>path.posix\<close> functions of Node's \<open>lib/path.js\<close>
  (the separator is \<open>/\<close>), loop by loop.  The index loops run downwards; the counter of each scan below
  is \<open>i + 1\<close>, so that the scan stops at counter \<open>0\<close>.  The variable \<open>end\<close> of
  the JavaScript, initially \<open>-1\<close>, is an option that is \<open>None\<close> for \<open>-1\<close>.
\<close>

definition CHAR_FORWARD_SLASH :: code_unit where
  "CHAR_FORWARD_SLASH = 47"

definition CHAR_DOT :: code_unit where
  "CHAR_DOT = 46"

datatype error = TypeError

text \<open>
  \<^verbatim>\<open>
  dirname(path) {
    if (path.length === 0) return '.';
    const hasRoot = path.charCodeAt(0) === CHAR_FORWARD_SLASH;
    let end = -1;
    let matchedSlash = true;
    for (let i = path.length - 1; i >= 1; --i) {
      if (path.charCodeAt(i) === CHAR_FORWARD_SLASH) {
        if (!matchedSlash) { end = i; break; }
      } else {
        matchedSlash = false;
      }
    }
    if (end === -1) return hasRoot ? '/' : '.';
    if (hasRoot && end === 1) return '//';
    return path.slice(0, end);
  }
  \<close>
  The loop stops before index \<open>0\<close>.
\<close>

fun dirname_scan :: "jsstring \<Rightarrow> nat \<Rightarrow> bool \<Rightarrow> nat option" where
  "dirname_scan path 0 matchedSlash = None"
| "dirname_scan path (Suc i) matchedSlash =
     (if i = 0 then None
      else if charCodeAt path i = Some CHAR_FORWARD_SLASH then
        (if \<not> matchedSlash then Some i else dirname_scan path i matchedSlash)
      else dirname_scan path i False)"

definition dirname :: "jsstring \<Rightarrow> jsstring" where
  "dirname path =
     (if length path = 0 then js ''.''
      else
        let hasRoot = (charCodeAt path 0 = Some CHAR_FORWARD_SLASH) in
        case dirname_scan path (length path) True of
          None \<Rightarrow> if hasRoot then js ''/'' else js ''.''
        | Some e \<Rightarrow> if hasRoot \<and> e = 1 then js ''//'' else slice path 0 e)"

text \<open>
  \<^verbatim>\<open>
  basename(path) {                       // called without a suffix
    let start = 0;
    let end = -1;
    let matchedSlash = true;
    for (let i = path.length - 1; i >= 0; --i) {
      if (path.charCodeAt(i) === CHAR_FORWARD_SLASH) {
        if (!matchedSlash) { start = i + 1; break; }
      } else if (end === -1) {
        matchedSlash = false;
        end = i + 1;
      }
    }
    if (end === -1) return '';
    return path.slice(start, end);
  }
  \<close>
\<close>

fun basename_scan :: "jsstring \<Rightarrow> nat \<Rightarrow> nat option \<Rightarrow> bool \<Rightarrow> nat \<times> nat option" where
  "basename_scan path 0 endPos matchedSlash = (0, endPos)"
| "basename_scan path (Suc i) endPos matchedSlash =
     (if charCodeAt path i = Some CHAR_FORWARD_SLASH then
        (if \<not> matchedSlash then (i + 1, endPos)
         else basename_scan path i endPos matchedSlash)
      else if endPos = None then basename_scan path i (Some (i + 1)) False
      else basename_scan path i endPos matchedSlash)"

definition basename :: "jsstring \<Rightarrow> jsstring" where
  "basename path =
     (case basename_scan path (length path) None True of
        (start, None) \<Rightarrow> []
      | (start, Some e) \<Rightarrow> slice path start e)"

text \<open>
  \<^verbatim>\<open>
  extname(path) {
    let startDot = -1;
    let startPart = 0;
    let end = -1;
    let matchedSlash = true;
    let preDotState = 0;
    for (let i = path.length - 1; i >= 0; --i) {
      const code = path.charCodeAt(i);
      if (code === CHAR_FORWARD_SLASH) {
        if (!matchedSlash) { startPart = i + 1; break; }
        continue;
      }
      if (end === -1) { matchedSlash = false; end = i + 1; }
      if (code === CHAR_DOT) {
        if (startDot === -1) startDot = i;
        else if (preDotState !== 1) preDotState = 1;
      } else if (startDot !== -1) {
        preDotState = -1;
      }
    }
    if (startDot === -1 || end === -1 || preDotState === 0 ||
        (preDotState === 1 && startDot === end - 1 && startDot === startPart + 1)) {
      return '';
    }
    return path.slice(startDot, end);
  }
  \<close>
\<close>

record ext_state =
  startDot :: "nat option"
  startPart :: nat
  endPos :: "nat option"
  matchedSlash :: bool
  preDotState :: int

definition ext_init :: ext_state where
  "ext_init = \<lparr>startDot = None, startPart = 0, endPos = None,
                matchedSlash = True, preDotState = 0\<rparr>"

definition ext_mark_end :: "nat \<Rightarrow> ext_state \<Rightarrow> ext_state" where
  "ext_mark_end i st =
     (if endPos st = None then st\<lparr>matchedSlash := False, endPos := Some (i + 1)\<rparr>
      else st)"

definition ext_mark_dot :: "code_unit option \<Rightarrow> nat \<Rightarrow> ext_state \<Rightarrow> ext_state" where
  "ext_mark_dot code i st =
     (if code = Some CHAR_DOT then
        (if startDot st = None then st\<lparr>startDot := Some i\<rparr>
         else if preDotState st \<noteq> 1 then st\<lparr>preDotState := 1\<rparr>
         else st)
      else if startDot st \<noteq> None then st\<lparr>preDotState := -1\<rparr>
      else st)"

fun extname_scan :: "jsstring \<Rightarrow> nat \<Rightarrow> ext_state \<Rightarrow> ext_state" where
  "extname_scan path 0 st = st"
| "extname_scan path (Suc i) st =
     (let code = charCodeAt path i in
      if code = Some CHAR_FORWARD_SLASH then
        (if \<not> matchedSlash st then st\<lparr>startPart := i + 1\<rparr>
         else extname_scan path i st)
      else extname_scan path i (ext_mark_dot code i (ext_mark_end i st)))"

definition extname :: "jsstring \<Rightarrow> jsstring" where
  "extname path =
     (let st = extname_scan path (length path) ext_init in
      case (startDot st, endPos st) of
        (Some sd, Some e) \<Rightarrow>
          if preDotState st = 0 \<or>
             (preDotState st = 1 \<and> sd = e - 1 \<and> sd = startPart st + 1)
          then []
          else slice path sd e
      | _ \<Rightarrow> [])"

text \<open>
  \<^verbatim>\<open>
  function normalizeString(path, allowAboveRoot, separator, isPathSeparator) {
    let res = '';
    let lastSegmentLength = 0;
    let lastSlash = -1;
    let dots = 0;
    let code = 0;
    for (let i = 0; i <= path.length; ++i) {
      if (i < path.length) code = path.charCodeAt(i);
      else if (isPathSeparator(code)) break;
      else code = CHAR_FORWARD_SLASH;

      if (isPathSeparator(code)) {
        if (lastSlash === i - 1 || dots === 1) {
          // NOOP
        } else if (dots === 2) {
          if (res.length < 2 || lastSegmentLength !== 2 ||
              res.charCodeAt(res.length - 1) !== CHAR_DOT ||
              res.charCodeAt(res.length - 2) !== CHAR_DOT) {
            if (res.length > 2) {
              const lastSlashIndex = res.lastIndexOf(separator);
              if (lastSlashIndex === -1) {
                res = '';
                lastSegmentLength = 0;
              } else {
                res = res.slice(0, lastSlashIndex);
                lastSegmentLength = res.length - 1 - res.lastIndexOf(separator);
              }
              lastSlash = i;
              dots = 0;
              continue;
            } else if (res.length !== 0) {
              res = '';
              lastSegmentLength = 0;
              lastSlash = i;
              dots = 0;
              continue;
            }
          }
          if (allowAboveRoot) {
            res += res.length > 0 ? `${separator}..` : '..';
            lastSegmentLength = 2;
          }
        } else {
          if (res.length > 0) res += `${separator}${path.slice(lastSlash + 1, i)}`;
          else res = path.slice(lastSlash + 1, i);
          lastSegmentLength = i - lastSlash - 1;
        }
        lastSlash = i;
        dots = 0;
      } else if (code === CHAR_DOT && dots !== -1) {
        ++dots;
      } else {
        dots = -1;
      }
    }
    return res;
  }
  \<close>
  The POSIX caller passes \<open>'/'\<close> and \<open>isPosixPathSeparator\<close>, the test
  \<open>code === CHAR_FORWARD_SLASH\<close>.  Every branch of the separator case ends with
  \<open>lastSlash = i; dots = 0\<close>, the two that \<open>continue\<close> included.
\<close>

record ns_state =
  res :: jsstring
  lastSegmentLength :: int
  lastSlash :: int
  dots :: int
  code :: code_unit

definition ns_init :: ns_state where
  "ns_init = \<lparr>res = [], lastSegmentLength = 0, lastSlash = -1, dots = 0, code = 0\<rparr>"

text \<open>The body of the separator case, before \<open>lastSlash = i; dots = 0\<close>.\<close>

definition ns_separator :: "jsstring \<Rightarrow> bool \<Rightarrow> nat \<Rightarrow> ns_state \<Rightarrow> ns_state" where
  "ns_separator path allowAboveRoot i st =
     (let r = res st; n = length r in
      if lastSlash st = int i - 1 \<or> dots st = 1 then st
      else if dots st = 2 then
        (let notDotDot =
               (n < 2 \<or> lastSegmentLength st \<noteq> 2 \<or>
                charCodeAt r (n - 1) \<noteq> Some CHAR_DOT \<or>
                charCodeAt r (n - 2) \<noteq> Some CHAR_DOT)
         in
         if notDotDot \<and> n > 2 then
           (let lastSlashIndex = lastIndexOf r CHAR_FORWARD_SLASH in
            if lastSlashIndex = -1 then st\<lparr>res := [], lastSegmentLength := 0\<rparr>
            else
              let r' = slice r 0 (nat lastSlashIndex) in
              st\<lparr>res := r',
                 lastSegmentLength :=
                   int (length r') - 1 - lastIndexOf r' CHAR_FORWARD_SLASH\<rparr>)
         else if notDotDot \<and> n \<noteq> 0 then st\<lparr>res := [], lastSegmentLength := 0\<rparr>
         else if allowAboveRoot then
           st\<lparr>res := r @ (if n > 0 then CHAR_FORWARD_SLASH # js ''..'' else js ''..''),
              lastSegmentLength := 2\<rparr>
         else st)
      else
        (let seg = slice path (nat (lastSlash st + 1)) i in
         st\<lparr>res := (if n > 0 then r @ CHAR_FORWARD_SLASH # seg else seg),
            lastSegmentLength := int i - lastSlash st - 1\<rparr>))"

definition ns_step :: "jsstring \<Rightarrow> bool \<Rightarrow> nat \<Rightarrow> ns_state \<Rightarrow> ns_state" where
  "ns_step path allowAboveRoot i st =
     (if code st = CHAR_FORWARD_SLASH then
        (ns_separator path allowAboveRoot i st)\<lparr>lastSlash := int i, dots := 0\<rparr>
      else if code st = CHAR_DOT \<and> dots st \<noteq> -1 then st\<lparr>dots := dots st + 1\<rparr>
      else st\<lparr>dots := -1\<rparr>)"

function normalizeString_loop :: "jsstring \<Rightarrow> bool \<Rightarrow> nat \<Rightarrow> ns_state \<Rightarrow> jsstring" where
  "normalizeString_loop path allowAboveRoot i st =
     (if i \<le> length path then
        (if i < length path then
           normalizeString_loop path allowAboveRoot (i + 1)
             (ns_step path allowAboveRoot i (st\<lparr>code := path ! i\<rparr>))
         else if code st = CHAR_FORWARD_SLASH then res st
         else
           normalizeString_loop path allowAboveRoot (i + 1)
             (ns_step path allowAboveRoot i (st\<lparr>code := CHAR_FORWARD_SLASH\<rparr>)))
      else res st)"
  by pat_completeness auto
termination
  by (relation "measure (\<lambda>(path, allowAboveRoot, i, st). Suc (length path) - i)") auto

definition normalizeString :: "jsstring \<Rightarrow> bool \<Rightarrow> jsstring" where
  "normalizeString path allowAboveRoot = normalizeString_loop path allowAboveRoot 0 ns_init"

text \<open>
  \<^verbatim>\<open>
  normalize(path) {
    if (path.length === 0) return '.';
    const isAbsolute = path.charCodeAt(0) === CHAR_FORWARD_SLASH;
    const trailingSeparator =
      path.charCodeAt(path.length - 1) === CHAR_FORWARD_SLASH;
    path = normalizeString(path, !isAbsolute, '/', isPosixPathSeparator);
    if (path.length === 0) {
      if (isAbsolute) return '/';
      return trailingSeparator ? './' : '.';
    }
    if (trailingSeparator) path += '/';
    return isAbsolute ? `/${path}` : path;
  }
  \<close>
\<close>

definition normalize :: "jsstring \<Rightarrow> jsstring" where
  "normalize path =
     (if length path = 0 then js ''.''
      else
        let isAbsolute = (charCodeAt path 0 = Some CHAR_FORWARD_SLASH);
            trailingSeparator = (charCodeAt path (length path - 1) = Some CHAR_FORWARD_SLASH);
            p = normalizeString path (\<not> isAbsolute)
        in if length p = 0 then
             (if isAbsolute then js ''/''
              else if trailingSeparator then js ''./'' else js ''.'')
           else
             let p' = (if trailingSeparator then p @ js ''/'' else p)
             in if isAbsolute then CHAR_FORWARD_SLASH # p' else p')"

text \<open>
  \<^verbatim>\<open>
  join(...args) {
    if (args.length === 0) return '.';
    let joined;
    for (let i = 0; i < args.length; ++i) {
      const arg = args[i];
      validateString(arg, 'path');          // throws TypeError
      if (arg.length > 0) {
        if (joined === undefined) joined = arg;
        else joined += `/${arg}`;
      }
    }
    if (joined === undefined) return '.';
    return posix.normalize(joined);
  }
  \<close>
\<close>

fun join_loop :: "jsval list \<Rightarrow> jsstring option \<Rightarrow> error + jsstring option" where
  "join_loop [] joined = Inr joined"
| "join_loop (JStr arg # args) joined =
     join_loop args
       (if length arg > 0 then
          (case joined of
             None \<Rightarrow> Some arg
           | Some j \<Rightarrow> Some (j @ CHAR_FORWARD_SLASH # arg))
        else joined)"
| "join_loop (v # args) joined = Inl TypeError"

definition path_join :: "jsval list \<Rightarrow> error + jsstring" where
  "path_join args =
     (if length args = 0 then Inr (js ''.'')
      else case join_loop args None of
        Inl e \<Rightarrow> Inl e
      | Inr None \<Rightarrow> Inr (js ''.'')
      | Inr (Some joined) \<Rightarrow> Inr (normalize joined))"

section \<open>The directory normalizer\<close>

text \<open>
  \<open>mkdirp.sync\<close> is an imported collaborator that works on the file system: it
  is a parameter, a function from the path and the file system to the new file
  system and either the exception it threw (\<open>Inl\<close>) or a normal return.
  \<^verbatim>\<open>
  const normalizeDir = dir => {
    if (nonEmptyStr(dir)) {
      try {
        mkdirp.sync(dir);
        return dir;
      } catch (x) {}
    }
    return null;
  };
  \<close>
  \<open>nonEmptyStr\<close> is false of every value that is not a string.
\<close>

type_synonym ('fs, 'x) mkdirp = "jsstring \<Rightarrow> 'fs \<Rightarrow> ('x + unit) \<times> 'fs"

fun normalizeDir :: "('fs, 'x) mkdirp \<Rightarrow> jsval \<Rightarrow> 'fs \<Rightarrow> jsval \<times> 'fs" where
  "normalizeDir mkdirp_sync (JStr dir) fs =
     (if nonEmptyStr (JStr dir) then
        (case mkdirp_sync dir fs of
           (Inr u, fs') \<Rightarrow> (JStr dir, fs')
         | (Inl x, fs') \<Rightarrow> (JNull, fs'))
      else (JNull, fs))"
| "normalizeDir mkdirp_sync dir fs = (JNull, fs)"

section \<open>The destination deriver\<close>

text \<open>
  The operand of \<open>||\<close> is tested with ToBoolean: \<open>undefined\<close>, \<open>null\<close>, \<open>false\<close>,
  \<open>0\<close> and the empty string are falsy; every object is truthy.
\<close>

fun truthy :: "jsval \<Rightarrow> bool" where
  "truthy JUndefined = False"
| "truthy JNull = False"
| "truthy (JBool b) = b"
| "truthy (JNum n) = (n \<noteq> 0)"
| "truthy (JStr s) = (s \<noteq> [])"
| "truthy (JArr xs) = True"
| "truthy (JObj props) = True"

text \<open>
  \<^verbatim>\<open>
  const destination = (src, dir) => {
    let d = dir || path.dirname(src);
    let bn = path.basename(src);
    return path.join(d, bn.substr(0, bn.length - 2));
  };
  \<close>
  \<open>src\<close> is a string (an element of the glob resolver's result); \<open>path.join\<close>
  throws a TypeError when \<open>d\<close> is not a string.
\<close>

definition destination :: "jsstring \<Rightarrow> jsval \<Rightarrow> error + jsstring" where
  "destination src dir =
     (let d = (if truthy dir then dir else JStr (dirname src));
          bn = basename src
      in path_join [d, JStr (substr bn 0 (int (length bn) - 2))])"

section \<open>The source finder\<close>

text \<open>
  \<open>globby.sync\<close> is an imported collaborator that reads the file system: it is a
  parameter, a function from the patterns and the file system to the matching
  paths (strings; none when nothing matches).
  \<^verbatim>\<open>
  const findSources = patterns =>
    globby.sync(patterns).filter(f => path.extname(f) === '.json');
  \<close>
\<close>

type_synonym 'fs globby = "jsval list \<Rightarrow> 'fs \<Rightarrow> jsstring list"

definition findSources :: "'fs globby \<Rightarrow> jsval list \<Rightarrow> 'fs \<Rightarrow> jsstring list" where
  "findSources globby_sync patterns fs =
     filter (\<lambda>f. extname f = js ''.json'') (globby_sync patterns fs)"

section \<open>The converter\<close>

text \<open>
  \<open>Array.prototype.map\<close> with a callback that may throw: the first exception
  ends the loop.
\<close>

fun map_throwing :: "('a \<Rightarrow> error + 'b) \<Rightarrow> 'a list \<Rightarrow> error + 'b list" where
  "map_throwing f [] = Inr []"
| "map_throwing f (x # xs) =
     (case f x of
        Inl e \<Rightarrow> Inl e
      | Inr y \<Rightarrow> (case map_throwing f xs of Inl e \<Rightarrow> Inl e | Inr ys \<Rightarrow> Inr (y # ys)))"

text \<open>
  \<^verbatim>\<open>
  const processSources = (srces, dir) =>
    srces.map(src => {
      let dest = destination(src);
      return dest;
    });
  \<close>
  \<open>destination\<close> is called with one argument: its parameter \<open>dir\<close> is
  \<open>undefined\<close>, whatever the \<open>dir\<close> of \<open>processSources\<close> is.
\<close>

definition processSources :: "jsstring list \<Rightarrow> jsval \<Rightarrow> error + jsstring list" where
  "processSources srces dir = map_throwing (\<lambda>src. destination src JUndefined) srces"

text \<open>
  \<^verbatim>\<open>
  export const convert = (patterns, dir) => {
    let srces = findSources(normalizePatterns(patterns));
    let dests = processSources(srces, normalizeDir(dir));
    return {srces, dests};
  };
  \<close>
  The glob resolver reads the file system before \<open>mkdirp.sync\<close> changes it.
\<close>

record conversion =
  srces :: "jsstring list"
  dests :: "jsstring list"

definition convert ::
    "'fs globby \<Rightarrow> ('fs, 'x) mkdirp \<Rightarrow> jsval \<Rightarrow> jsval \<Rightarrow> 'fs \<Rightarrow> (error + conversion) \<times> 'fs" where
  "convert globby_sync mkdirp_sync patterns dir fs =
     (let found = findSources globby_sync (normalizePatterns patterns) fs;
          (d, fs') = normalizeDir mkdirp_sync dir fs
      in case processSources found d of
           Inl e \<Rightarrow> (Inl e, fs')
         | Inr derived \<Rightarrow> (Inr \<lparr>srces = found, dests = derived\<rparr>, fs'))"

section \<open>Collaborators for the worked examples\<close>

text \<open>
  A file system that is the list of the directories created so far, a
  \<open>mkdirp.sync\<close> that cannot write below \<open>/proc\<close>, and a glob resolver over a
  directory \<open>lang\<close> that holds \<open>en.json\<close>, \<open>README.md\<close> and \<open>fr.json\<close>.
\<close>

type_synonym example_fs = "jsstring list"

definition example_mkdirp :: "(example_fs, string) mkdirp" where
  "example_mkdirp dir fs =
     (if dir = js ''/proc/out'' then (Inl ''EACCES'', fs)
      else (Inr (), if dir \<in> set fs then fs else dir # fs))"

definition example_glob :: "example_fs globby" where
  "example_glob patterns fs =
     (if patterns = [JStr (js ''lang/*'')]
        then [js ''lang/en.json'', js ''lang/README.md'', js ''lang/fr.json'']
      else if patterns = [JStr (js ''lang/*.json'')]
        then [js ''lang/en.json'', js ''lang/fr.json'']
      else [])"

section \<open>Properties of the pattern normalizer\<close>

lemma nonEmptyStr_iff: "nonEmptyStr v \<longleftrightarrow> (\<exists>s. v = JStr s \<and> test_nonspace s)"
  by (cases v) simp_all

lemma test_nonspace_Nil [simp]: "\<not> test_nonspace []"
  by (simp add: test_nonspace_def)

lemma whitespace_only: "list_all isWhiteSpace s \<Longrightarrow> \<not> test_nonspace s"
  by (simp add: test_nonspace_def list_ex_iff list_all_iff)

lemma default_test_nonspace: "test_nonspace (js ''lang/*.json'')"
  by code_simp

lemma normalizePatterns_nonEmptyStr:
  "v \<in> set (normalizePatterns p) \<Longrightarrow> nonEmptyStr v"
  by (cases p)
    (auto simp: normalizePatterns_def default_patterns_def default_test_nonspace
          split: if_splits)

lemma normalizePatterns_not_Nil: "normalizePatterns p \<noteq> []"
  by (cases p)
    (auto simp: normalizePatterns_def default_patterns_def list_ex_iff filter_empty_conv)

text \<open>
  Claim C2, as amended.  A string that holds at least one code unit that is not
  white space is wrapped as the one-element sequence \<open>[s]\<close>.  The test is
  \<open>/\S/\<close>, not \<open>s.length > 0\<close>: a string of white space only is not wrapped.
\<close>

theorem normalizePatterns_string:
  "test_nonspace s \<Longrightarrow> normalizePatterns (JStr s) = [JStr s]"
  by (simp add: normalizePatterns_def)

theorem normalizePatterns_string_witness:
  "test_nonspace (js ''lang/*.json'') \<and>
   normalizePatterns (JStr (js ''lang/*.json'')) = [JStr (js ''lang/*.json'')]"
proof -
  have h: "test_nonspace (js ''lang/*.json'')" by code_simp
  from normalizePatterns_string [OF h] h show ?thesis by blast
qed

text \<open>
  Claim C2 as stated fails: the string \<open>" "\<close> has length one, and the
  normalizer returns the default sequence for it, not \<open>[" "]\<close>.
\<close>

theorem normalizePatterns_whitespace_counterexample:
  "js '' '' \<noteq> [] \<and>
   normalizePatterns (JStr (js '' '')) = [JStr (js ''lang/*.json'')] \<and>
   normalizePatterns (JStr (js '' '')) \<noteq> [JStr (js '' '')]"
  by code_simp

text \<open>
  Claim C4.  The empty string, a string of white space only, \<open>null\<close>,
  \<open>undefined\<close>, any value that is neither a string nor an array, and an array
  none of whose elements is a non-empty string all normalize to the default
  sequence \<open>["lang/*.json"]\<close>.  The normalizer is a total function into
  sequences: it has no error result.
\<close>

theorem normalizePatterns_default:
  "p = JStr [] \<or>
   (\<exists>s. p = JStr s \<and> s \<noteq> [] \<and> list_all isWhiteSpace s) \<or>
   p = JNull \<or> p = JUndefined \<or>
   (\<not> isString p \<and> \<not> isArray p) \<or>
   (\<exists>xs. p = JArr xs \<and> (\<forall>x \<in> set xs. \<not> nonEmptyStr x))
   \<Longrightarrow> normalizePatterns p = [JStr (js ''lang/*.json'')]"
  by (cases p)
    (auto simp: normalizePatterns_def default_patterns_def list_ex_iff whitespace_only)

theorem normalizePatterns_default_witness:
  "list_all isWhiteSpace (js ''  '') \<and> js ''  '' \<noteq> [] \<and>
   normalizePatterns (JStr (js ''  '')) = [JStr (js ''lang/*.json'')]"
proof -
  have h: "list_all isWhiteSpace (js ''  '')" "js ''  '' \<noteq> []" by code_simp+
  then have "normalizePatterns (JStr (js ''  '')) = [JStr (js ''lang/*.json'')]"
    by (intro normalizePatterns_default) blast
  with h show ?thesis by blast
qed

text \<open>
  Claim C5.  An array with at least one non-empty string element normalizes to
  its non-empty string elements, in their order; the array
  \<open>["", "a/*.json", "  ", "b/*.json"]\<close> normalizes to \<open>["a/*.json", "b/*.json"]\<close>.
\<close>

theorem normalizePatterns_array:
  "(list_ex nonEmptyStr xs \<longrightarrow> normalizePatterns (JArr xs) = filter nonEmptyStr xs) \<and>
   normalizePatterns
     (JArr [JStr (js []), JStr (js ''a/*.json''), JStr (js ''  ''), JStr (js ''b/*.json'')])
   = [JStr (js ''a/*.json''), JStr (js ''b/*.json'')]"
proof
  show "list_ex nonEmptyStr xs \<longrightarrow> normalizePatterns (JArr xs) = filter nonEmptyStr xs"
    by (simp add: normalizePatterns_def)
  show "normalizePatterns
     (JArr [JStr (js []), JStr (js ''a/*.json''), JStr (js ''  ''), JStr (js ''b/*.json'')])
   = [JStr (js ''a/*.json''), JStr (js ''b/*.json'')]"
    by code_simp
qed

theorem normalizePatterns_array_witness:
  "list_ex nonEmptyStr [JStr (js []), JStr (js ''a/*.json'')] \<and>
   normalizePatterns (JArr [JStr (js []), JStr (js ''a/*.json'')]) = [JStr (js ''a/*.json'')]"
proof -
  let ?xs = "[JStr (js []), JStr (js ''a/*.json'')]"
  have h: "list_ex nonEmptyStr ?xs" by code_simp
  have f: "filter nonEmptyStr ?xs = [JStr (js ''a/*.json'')]" by code_simp
  from normalizePatterns_array [of ?xs] h
  have "normalizePatterns (JArr ?xs) = filter nonEmptyStr ?xs" by blast
  then have "normalizePatterns (JArr ?xs) = [JStr (js ''a/*.json'')]" using f by (rule trans)
  with h show ?thesis by (rule conjI)
qed

text \<open>
  Claim C6.  Whatever the input, the normalizer returns a sequence that is not
  empty, and each of its elements is a string that is not empty (it even holds
  a code unit that is not white space).  There is no error result.
\<close>

theorem normalizePatterns_valid:
  "normalizePatterns p \<noteq> [] \<and>
   (\<forall>v \<in> set (normalizePatterns p). \<exists>s. v = JStr s \<and> s \<noteq> [] \<and> test_nonspace s)"
proof
  show "normalizePatterns p \<noteq> []"
    by (rule normalizePatterns_not_Nil)
  show "\<forall>v \<in> set (normalizePatterns p). \<exists>s. v = JStr s \<and> s \<noteq> [] \<and> test_nonspace s"
  proof
    fix v assume "v \<in> set (normalizePatterns p)"
    then have "nonEmptyStr v" by (rule normalizePatterns_nonEmptyStr)
    then obtain s where s: "v = JStr s" "test_nonspace s"
      by (auto simp: nonEmptyStr_iff)
    then have "s \<noteq> []" by auto
    with s show "\<exists>s. v = JStr s \<and> s \<noteq> [] \<and> test_nonspace s" by blast
  qed
qed

theorem normalizePatterns_valid_witness:
  "normalizePatterns (JArr [JNum 7, JStr (js '' ''), JStr (js ''a/*.json'')]) \<noteq> [] \<and>
   JStr (js ''a/*.json'') \<in>
     set (normalizePatterns (JArr [JNum 7, JStr (js '' ''), JStr (js ''a/*.json'')])) \<and>
   (\<exists>s. JStr (js ''a/*.json'') = JStr s \<and> s \<noteq> [] \<and> test_nonspace s)"
proof -
  let ?p = "JArr [JNum 7, JStr (js '' ''), JStr (js ''a/*.json'')]"
  have m: "JStr (js ''a/*.json'') \<in> set (normalizePatterns ?p)" by code_simp
  from normalizePatterns_valid [of ?p] m show ?thesis by blast
qed

section \<open>Properties of the directory normalizer\<close>

text \<open>
  Claim C7.  The directory normalizer returns \<open>null\<close> when its input is not a
  non-empty string (\<open>mkdirp.sync\<close> is then not called: the file system is
  unchanged) and when \<open>mkdirp.sync\<close> throws; when \<open>mkdirp.sync\<close> returns, it
  returns the input string as it is.  Its result is a value in every case: the
  exception is not passed on.
\<close>

theorem normalizeDir_spec:
  "(\<not> nonEmptyStr dir \<longrightarrow> normalizeDir mk dir fs = (JNull, fs)) \<and>
   (nonEmptyStr (JStr s) \<and> mk s fs = (Inl x, fs') \<longrightarrow>
      normalizeDir mk (JStr s) fs = (JNull, fs')) \<and>
   (nonEmptyStr (JStr s) \<and> mk s fs = (Inr u, fs') \<longrightarrow>
      normalizeDir mk (JStr s) fs = (JStr s, fs'))"
  by (cases dir) simp_all

theorem normalizeDir_spec_witness:
  "\<not> nonEmptyStr (JStr (js ''  '')) \<and>
   normalizeDir example_mkdirp (JStr (js ''  '')) [] = (JNull, []) \<and>
   nonEmptyStr (JStr (js ''/proc/out'')) \<and>
   example_mkdirp (js ''/proc/out'') [] = (Inl ''EACCES'', []) \<and>
   normalizeDir example_mkdirp (JStr (js ''/proc/out'')) [] = (JNull, []) \<and>
   nonEmptyStr (JStr (js ''out'')) \<and>
   example_mkdirp (js ''out'') [] = (Inr (), [js ''out'']) \<and>
   normalizeDir example_mkdirp (JStr (js ''out'')) [] = (JStr (js ''out''), [js ''out''])"
proof -
  have a: "\<not> nonEmptyStr (JStr (js ''  ''))" by code_simp
  have b: "nonEmptyStr (JStr (js ''/proc/out''))" by code_simp
  have b': "example_mkdirp (js ''/proc/out'') [] = (Inl ''EACCES'', [])" by code_simp
  have c: "nonEmptyStr (JStr (js ''out''))" by code_simp
  have c': "example_mkdirp (js ''out'') [] = (Inr (), [js ''out''])" by code_simp
  from a normalizeDir_spec [of "JStr (js ''  '')" example_mkdirp "[]"]
  have 1: "normalizeDir example_mkdirp (JStr (js ''  '')) [] = (JNull, [])" by blast
  from b b' normalizeDir_spec [of _ example_mkdirp "[]" "js ''/proc/out''" "''EACCES''" "[]"]
  have 2: "normalizeDir example_mkdirp (JStr (js ''/proc/out'')) [] = (JNull, [])" by blast
  from c c' normalizeDir_spec [of _ example_mkdirp "[]" "js ''out''" _ "[js ''out'']" "()"]
  have 3: "normalizeDir example_mkdirp (JStr (js ''out'')) [] = (JStr (js ''out''), [js ''out''])"
    by blast
  from a b b' c c' 1 2 3 show ?thesis by blast
qed

section \<open>Properties of the source finder\<close>

text \<open>
  Claim C8.  The source finder returns the glob resolver's result filtered, in
  order, to the paths whose \<open>path.extname\<close> is the five code units \<open>.json\<close>;
  every path it returns has that extension; when the resolver matches nothing
  the result is the empty sequence.
\<close>

theorem findSources_spec:
  "findSources g ps fs = filter (\<lambda>f. extname f = js ''.json'') (g ps fs) \<and>
   (\<forall>f \<in> set (findSources g ps fs). extname f = js ''.json'' \<and> length (extname f) = 5) \<and>
   (g ps fs = [] \<longrightarrow> findSources g ps fs = [])"
proof -
  have "length (js ''.json'') = 5" by code_simp
  then show ?thesis by (auto simp: findSources_def)
qed

theorem findSources_spec_witness:
  "findSources example_glob [JStr (js ''lang/*'')] [] = [js ''lang/en.json'', js ''lang/fr.json''] \<and>
   js ''lang/fr.json'' \<in> set (findSources example_glob [JStr (js ''lang/*'')] []) \<and>
   extname (js ''lang/fr.json'') = js ''.json'' \<and>
   example_glob [JStr (js ''*.json'')] [] = [] \<and>
   findSources example_glob [JStr (js ''*.json'')] [] = []"
proof -
  have f: "filter (\<lambda>f. extname f = js ''.json'') (example_glob [JStr (js ''lang/*'')] [])
           = [js ''lang/en.json'', js ''lang/fr.json'']" by code_simp
  from findSources_spec [of example_glob "[JStr (js ''lang/*'')]" "[]"] f
  have 1: "findSources example_glob [JStr (js ''lang/*'')] []
           = [js ''lang/en.json'', js ''lang/fr.json'']" by (simp only:)
  then have m: "js ''lang/fr.json'' \<in> set (findSources example_glob [JStr (js ''lang/*'')] [])"
    by simp
  with findSources_spec [of example_glob "[JStr (js ''lang/*'')]" "[]"]
  have 2: "extname (js ''lang/fr.json'') = js ''.json''" by blast
  have e: "example_glob [JStr (js ''*.json'')] [] = []" by code_simp
  with findSources_spec [of example_glob "[JStr (js ''*.json'')]" "[]"]
  have 3: "findSources example_glob [JStr (js ''*.json'')] [] = []" by blast
  from 1 m 2 e 3 show ?thesis by blast
qed

section \<open>Properties of the destination deriver\<close>

lemma substr_drop_two: "substr bn 0 (int (length bn) - 2) = take (length bn - 2) bn"
proof -
  have "nat (int (length bn) - 2) = length bn - 2" by arith
  then show ?thesis
    by (simp add: substr_def slice_def Let_def min_def max_def)
qed

lemma path_join_two_strings: "\<exists>r. path_join [JStr a, JStr b] = Inr r"
  by (simp add: path_join_def split: option.splits)

lemma destination_absent:
  "\<not> truthy dir \<Longrightarrow>
   destination src dir =
     path_join [JStr (dirname src), JStr (take (length (basename src) - 2) (basename src))]"
  by (simp add: destination_def Let_def substr_drop_two)

lemma destination_present:
  "d \<noteq> [] \<Longrightarrow>
   destination src (JStr d) =
     path_join [JStr d, JStr (take (length (basename src) - 2) (basename src))]"
  by (simp add: destination_def Let_def substr_drop_two)

lemma destination_undefined_Inr: "\<exists>r. destination src JUndefined = Inr r"
  by (simp add: destination_absent path_join_two_strings)

text \<open>
  Claim C3.  With an absent directory (\<open>null\<close> or \<open>undefined\<close>) the destination
  is \<open>path.join\<close> of the source's \<open>path.dirname\<close> and the source's
  \<open>path.basename\<close> without its last two code units; with a directory string
  (not empty) it is \<open>path.join\<close> of that directory and the same file name; in
  both cases \<open>path.join\<close> returns and does not throw.
  \<open>lang/en.json\<close> goes to \<open>lang/en.js\<close>, and to \<open>out/en.js\<close> under the
  directory \<open>out\<close>.  Nothing checks the suffix: the equations hold for every
  source path, and \<open>doc/notes.txt\<close> goes to \<open>doc/notes.t\<close>.
\<close>

theorem destination_spec:
  "(dir = JNull \<or> dir = JUndefined \<longrightarrow>
      destination src dir =
        path_join [JStr (dirname src), JStr (take (length (basename src) - 2) (basename src))] \<and>
      (\<exists>r. destination src dir = Inr r)) \<and>
   (d \<noteq> [] \<longrightarrow>
      destination src (JStr d) =
        path_join [JStr d, JStr (take (length (basename src) - 2) (basename src))] \<and>
      (\<exists>r. destination src (JStr d) = Inr r)) \<and>
   destination (js ''lang/en.json'') JNull = Inr (js ''lang/en.js'') \<and>
   destination (js ''lang/en.json'') (JStr (js ''out'')) = Inr (js ''out/en.js'') \<and>
   destination (js ''doc/notes.txt'') JNull = Inr (js ''doc/notes.t'')"
proof (intro conjI impI)
  assume "dir = JNull \<or> dir = JUndefined"
  then have "\<not> truthy dir" by auto
  then show a: "destination src dir =
        path_join [JStr (dirname src), JStr (take (length (basename src) - 2) (basename src))]"
    by (rule destination_absent)
  show "\<exists>r. destination src dir = Inr r"
    unfolding a by (rule path_join_two_strings)
next
  assume "d \<noteq> []"
  then show p: "destination src (JStr d) =
        path_join [JStr d, JStr (take (length (basename src) - 2) (basename src))]"
    by (rule destination_present)
  show "\<exists>r. destination src (JStr d) = Inr r"
    unfolding p by (rule path_join_two_strings)
next
  show "destination (js ''lang/en.json'') JNull = Inr (js ''lang/en.js'')"
    by code_simp
next
  show "destination (js ''lang/en.json'') (JStr (js ''out'')) = Inr (js ''out/en.js'')"
    by code_simp
next
  show "destination (js ''doc/notes.txt'') JNull = Inr (js ''doc/notes.t'')"
    by code_simp
qed

theorem destination_spec_witness:
  "destination (js ''lang/fr.json'') JNull =
     path_join [JStr (js ''lang''), JStr (js ''fr.js'')] \<and>
   js ''out'' \<noteq> [] \<and>
   destination (js ''lang/fr.json'') (JStr (js ''out'')) =
     path_join [JStr (js ''out''), JStr (js ''fr.js'')]"
proof -
  have h: "js ''out'' \<noteq> []" by code_simp
  have dn: "dirname (js ''lang/fr.json'') = js ''lang''" by code_simp
  have bn: "take (length (basename (js ''lang/fr.json'')) - 2) (basename (js ''lang/fr.json''))
            = js ''fr.js''" by code_simp
  from destination_spec [of JNull "js ''lang/fr.json''" "js ''out''"] h dn bn
  show ?thesis by simp
qed

section \<open>Properties of the converter\<close>

lemma map_throwing_total:
  "(\<And>x. \<exists>y. f x = Inr y) \<Longrightarrow>
   \<exists>ys. map_throwing f xs = Inr ys \<and> map Inr ys = map f xs"
proof (induction xs)
  case Nil
  show ?case by simp
next
  case (Cons x xs)
  from Cons.prems obtain y where y: "f x = Inr y" by blast
  from Cons.IH [OF Cons.prems] obtain ys where
    ys: "map_throwing f xs = Inr ys" "map Inr ys = map f xs" by blast
  from y ys show ?case by simp
qed

lemma processSources_total:
  "\<exists>ds. processSources ss dir = Inr ds \<and>
        map Inr ds = map (\<lambda>src. destination src JUndefined) ss"
  unfolding processSources_def
  by (rule map_throwing_total) (rule destination_undefined_Inr)

lemma convert_returns:
  "\<exists>ds fs'. convert g mk p dir fs =
       (Inr \<lparr>srces = findSources g (normalizePatterns p) fs, dests = ds\<rparr>, fs') \<and>
     map Inr ds = map (\<lambda>src. destination src JUndefined) (findSources g (normalizePatterns p) fs)"
proof -
  obtain d fs' where n: "normalizeDir mk dir fs = (d, fs')" by (cases "normalizeDir mk dir fs")
  obtain ds where ds: "processSources (findSources g (normalizePatterns p) fs) d = Inr ds"
    "map Inr ds = map (\<lambda>src. destination src JUndefined) (findSources g (normalizePatterns p) fs)"
    using processSources_total by blast
  from n ds show ?thesis by (simp add: convert_def Let_def)
qed

lemma example_convert_out:
  "convert example_glob example_mkdirp (JStr (js ''lang/*'')) (JStr (js ''out'')) [] =
     (Inr \<lparr>srces = [js ''lang/en.json'', js ''lang/fr.json''],
           dests = [js ''lang/en.js'', js ''lang/fr.js'']\<rparr>,
      [js ''out''])"
  by code_simp

text \<open>
  Claim C1 does not hold of the code.  With the patterns \<open>lang/*.json\<close>, the
  directory \<open>out\<close> (a non-empty string that \<open>mkdirp.sync\<close> creates, so that the
  directory normalizer returns it) and the sources \<open>lang/en.json\<close> and
  \<open>lang/fr.json\<close>, the converter returns the destinations \<open>lang/en.js\<close> and
  \<open>lang/fr.js\<close>, beside their sources.  The destination deriver, given the
  directory, would return \<open>out/en.js\<close>: \<open>processSources\<close> does not pass it on.
\<close>

theorem convert_drops_directory:
  "convert example_glob example_mkdirp (JStr (js ''lang/*.json'')) (JStr (js ''out'')) [] =
     (Inr \<lparr>srces = [js ''lang/en.json'', js ''lang/fr.json''],
           dests = [js ''lang/en.js'', js ''lang/fr.js'']\<rparr>,
      [js ''out'']) \<and>
   normalizeDir example_mkdirp (JStr (js ''out'')) [] = (JStr (js ''out''), [js ''out'']) \<and>
   destination (js ''lang/en.json'') (JStr (js ''out'')) = Inr (js ''out/en.js'')"
  by code_simp

text \<open>
  Claim C9.  Every call of the converter returns (it has no error result for
  any input): its result holds the sources and the destinations, two sequences
  of the same length, and the destination at each index is the one that the
  destination deriver returns for the source at that index.
\<close>

theorem convert_corresponds:
  "\<exists>r fs'. convert g mk p dir fs = (Inr r, fs') \<and>
     length (dests r) = length (srces r) \<and>
     (\<forall>i < length (srces r). destination (srces r ! i) JUndefined = Inr (dests r ! i))"
proof -
  let ?ss = "findSources g (normalizePatterns p) fs"
  obtain ds fs' where c: "convert g mk p dir fs = (Inr \<lparr>srces = ?ss, dests = ds\<rparr>, fs')"
    and m: "map Inr ds = map (\<lambda>src. destination src JUndefined) ?ss"
    using convert_returns [of g mk p dir fs] by blast
  from m have len: "length ds = length ?ss"
    by (metis length_map)
  have "destination (?ss ! i) JUndefined = Inr (ds ! i)" if "i < length ?ss" for i
  proof -
    from that have "destination (?ss ! i) JUndefined
        = map (\<lambda>src. destination src JUndefined) ?ss ! i" by simp
    also have "\<dots> = map Inr ds ! i" by (simp only: m)
    also from that len have "\<dots> = Inr (ds ! i)" by simp
    finally show ?thesis .
  qed
  with c len show ?thesis by simp
qed

theorem convert_corresponds_witness:
  "\<exists>r fs'.
     convert example_glob example_mkdirp (JStr (js ''lang/*'')) (JStr (js ''out'')) [] = (Inr r, fs') \<and>
     length (dests r) = 2 \<and> length (srces r) = 2 \<and>
     destination (srces r ! 1) JUndefined = Inr (dests r ! 1) \<and>
     dests r ! 1 = js ''lang/fr.js''"
proof -
  let ?c = "convert example_glob example_mkdirp (JStr (js ''lang/*'')) (JStr (js ''out'')) []"
  from convert_corresponds [of example_glob example_mkdirp "JStr (js ''lang/*'')" "JStr (js ''out'')" "[]"]
  obtain r fs' where r: "?c = (Inr r, fs')"
    and len: "length (dests r) = length (srces r)"
    and nth: "\<forall>i < length (srces r). destination (srces r ! i) JUndefined = Inr (dests r ! i)"
    by blast
  from r example_convert_out
  have eq: "r = \<lparr>srces = [js ''lang/en.json'', js ''lang/fr.json''],
                 dests = [js ''lang/en.js'', js ''lang/fr.js'']\<rparr>"
    by simp
  then have l: "length (srces r) = 2" and d: "dests r ! 1 = js ''lang/fr.js''" by simp_all
  from l nth have "destination (srces r ! 1) JUndefined = Inr (dests r ! 1)" by simp
  with r len l d show ?thesis by auto
qed

text \<open>
  Claim C10.  Two calls of the converter with the same patterns, for which the
  glob resolver returns the same paths, return the same destinations whatever
  their directory arguments (and whatever \<open>mkdirp.sync\<close> does): each
  destination is \<open>path.join\<close> of the directory of its own source and the
  truncated base name, since \<open>processSources\<close> calls \<open>destination\<close> without the
  normalized directory.
\<close>

theorem convert_ignores_dir:
  "g (normalizePatterns p) fs1 = g (normalizePatterns p) fs2 \<Longrightarrow>
   \<exists>r1 r2 fs1' fs2'.
     convert g mk1 p dir1 fs1 = (Inr r1, fs1') \<and>
     convert g mk2 p dir2 fs2 = (Inr r2, fs2') \<and>
     dests r1 = dests r2 \<and>
     map Inr (dests r1) =
       map (\<lambda>src. path_join [JStr (dirname src),
                              JStr (take (length (basename src) - 2) (basename src))])
           (srces r1)"
proof -
  assume same: "g (normalizePatterns p) fs1 = g (normalizePatterns p) fs2"
  let ?s1 = "findSources g (normalizePatterns p) fs1"
  let ?s2 = "findSources g (normalizePatterns p) fs2"
  from same have ss: "?s1 = ?s2" by (simp add: findSources_def)
  obtain d1 f1 where c1: "convert g mk1 p dir1 fs1 = (Inr \<lparr>srces = ?s1, dests = d1\<rparr>, f1)"
    and m1: "map Inr d1 = map (\<lambda>src. destination src JUndefined) ?s1"
    using convert_returns [of g mk1 p dir1 fs1] by blast
  obtain d2 f2 where c2: "convert g mk2 p dir2 fs2 = (Inr \<lparr>srces = ?s2, dests = d2\<rparr>, f2)"
    and m2: "map Inr d2 = map (\<lambda>src. destination src JUndefined) ?s2"
    using convert_returns [of g mk2 p dir2 fs2] by blast
  from m1 m2 ss have "map Inr d1 = (map Inr d2 :: (error + jsstring) list)" by simp
  then have eq: "d1 = d2" by (simp add: inj_map_eq_map)
  have "(\<lambda>src. destination src JUndefined) =
        (\<lambda>src. path_join [JStr (dirname src),
                              JStr (take (length (basename src) - 2) (basename src))])"
    by (simp add: destination_absent)
  with m1 have "map Inr d1 = map (\<lambda>src. path_join [JStr (dirname src),
                              JStr (take (length (basename src) - 2) (basename src))]) ?s1"
    by simp
  with c1 c2 eq show ?thesis by simp
qed

theorem convert_ignores_dir_witness:
  "example_glob (normalizePatterns (JStr (js ''lang/*''))) [] =
   example_glob (normalizePatterns (JStr (js ''lang/*''))) [js ''out''] \<and>
   (\<exists>r1 r2 fs1' fs2'.
      convert example_glob example_mkdirp (JStr (js ''lang/*'')) (JStr (js ''out'')) []
        = (Inr r1, fs1') \<and>
      convert example_glob example_mkdirp (JStr (js ''lang/*'')) JUndefined [js ''out'']
        = (Inr r2, fs2') \<and>
      dests r1 = dests r2 \<and>
      dests r1 = [js ''lang/en.js'', js ''lang/fr.js''])"
proof -
  have h: "example_glob (normalizePatterns (JStr (js ''lang/*''))) [] =
           example_glob (normalizePatterns (JStr (js ''lang/*''))) [js ''out'']"
    by (simp add: example_glob_def)
  from h convert_ignores_dir
    [where g = example_glob and p = "JStr (js ''lang/*'')" and ?fs1.0 = "[]"
       and ?fs2.0 = "[js ''out'']" and ?mk1.0 = example_mkdirp and ?mk2.0 = example_mkdirp
       and ?dir1.0 = "JStr (js ''out'')" and ?dir2.0 = JUndefined]
  obtain r1 r2 fs1' fs2' where
    c1: "convert example_glob example_mkdirp (JStr (js ''lang/*'')) (JStr (js ''out'')) []
           = (Inr r1, fs1')" and
    c2: "convert example_glob example_mkdirp (JStr (js ''lang/*'')) JUndefined [js ''out'']
           = (Inr r2, fs2')" and
    eq: "dests r1 = dests r2"
    by blast
  from c1 example_convert_out
  have "r1 = \<lparr>srces = [js ''lang/en.json'', js ''lang/fr.json''],
                 dests = [js ''lang/en.js'', js ''lang/fr.js'']\<rparr>"
    by simp
  then have "dests r1 = [js ''lang/en.js'', js ''lang/fr.js'']"
    by simp
  with h c1 c2 eq show ?thesis by blast
qed

end
